theory Spec2Isabelle
  imports Main "HOL-Library.Sublist"
begin

section \<open>Strings\<close>

text \<open>
  Python \<open>str\<close> values are modelled as \<open>string\<close>, one \<open>char\<close> per character.
  \<open>upper\<close> is \<open>str.upper\<close> on the ASCII letters; every other character is kept, so
  the Unicode case table beyond ASCII is outside the model.
\<close>

definition upper_table :: "(char \<times> char) list" where
  "upper_table = zip ''abcdefghijklmnopqrstuvwxyz'' ''ABCDEFGHIJKLMNOPQRSTUVWXYZ''"

definition upper_char :: "char \<Rightarrow> char" where
  "upper_char c = (case map_of upper_table c of Some u \<Rightarrow> u | None \<Rightarrow> c)"

definition upper :: "string \<Rightarrow> string" where
  "upper s = map upper_char s"

text \<open>\<open>s.startswith(p)\<close>.\<close>

definition startswith :: "string \<Rightarrow> string \<Rightarrow> bool" where
  "startswith s p = prefix p s"

text \<open>\<open>s.lstrip(c)\<close> for a one-character set \<open>c\<close>.\<close>

definition lstrip :: "char \<Rightarrow> string \<Rightarrow> string" where
  "lstrip c s = dropWhile (\<lambda>x. x = c) s"

text \<open>
  \<open>s.rsplit(sep, 1)\<close> for a one-character separator: at most one split, made at the
  last occurrence of the separator.
\<close>

definition rsplit1 :: "char \<Rightarrow> string \<Rightarrow> string list" where
  "rsplit1 sep s =
     (if sep \<in> set s
      then [rev (tl (dropWhile (\<lambda>x. x \<noteq> sep) (rev s))), rev (takeWhile (\<lambda>x. x \<noteq> sep) (rev s))]
      else [s])"

section \<open>Severity and category vocabularies\<close>

text \<open>\<open>map_severity\<close>: a dictionary lookup on the upper-cased token, default \<open>info\<close>.\<close>

definition severity_mapping :: "(string \<times> string) list" where
  "severity_mapping = [(''ERROR'', ''error''), (''WARNING'', ''warning''), (''INFO'', ''info'')]"

definition map_severity :: "string \<Rightarrow> string" where
  "map_severity semgrep_severity =
     (case map_of severity_mapping (upper semgrep_severity) of
        Some v \<Rightarrow> v
      | None \<Rightarrow> ''info'')"

definition security_rules :: "string list" where
  "security_rules =
     [''hardcoded-secret-generic'', ''sql-string-concat'', ''weak-crypto-md5'',
      ''weak-crypto-sha1'', ''js-eval-usage'', ''js-innerhtml'', ''python-exec'',
      ''python-subprocess-shell'', ''go-sql-format'', ''rust-unsafe-block'',
      ''path-traversal-python'', ''path-traversal-go'', ''path-traversal-node'',
      ''command-injection-go'', ''command-injection-node'',
      ''ssrf-python'', ''ssrf-node'',
      ''insecure-deserialize-python'', ''insecure-deserialize-java'',
      ''java-unsafe-reflection'', ''log-injection'']"

definition map_category :: "string \<Rightarrow> string" where
  "map_category rule_id =
     (if rule_id \<in> set security_rules then ''security''
      else if rule_id = ''test-todo-skip'' then ''quality''
      else ''security'')"

section \<open>Engine output as JSON values\<close>

text \<open>
  What \<open>json.loads\<close> returns: \<open>None\<close>, \<open>bool\<close>, \<open>int\<close>, \<open>float\<close> (kept as its
  literal text), \<open>str\<close>, \<open>list\<close> and \<open>dict\<close>. A \<open>dict\<close> is an association list in
  insertion order, each key once.
\<close>

datatype json =
    JNull
  | JBool bool
  | JInt int
  | JFloat string
  | JStr string
  | JArr "json list"
  | JObj "(string \<times> json) list"

text \<open>
  Exceptions that reach the handlers of \<open>scan\<close>. A \<open>fault\<close> is any exception other than
  the two the handlers name; it records what raised it: a missing attribute, a value that
  cannot be iterated, a value that is no container for \<open>in\<close>, an unhashable set element,
  the fields pydantic refused, an operating-system error on a path, or an exception of a
  collaborator.
\<close>

datatype errno = ENOENT | ENOTDIR | EEXIST | EISDIR

datatype fault =
    NoAttribute json string
  | NotIterable json
  | NotContainer json
  | Unhashable json
  | ValidationError "(string \<times> json) list"
  | OSError errno "string list"
  | Other string

datatype exn =
    HTTPException nat string
  | TimeoutExpired
  | Fault fault

text \<open>Sequencing of a computation that may raise.\<close>

definition on_success :: "'e + 'a \<Rightarrow> ('a \<Rightarrow> 'e + 'b) \<Rightarrow> 'e + 'b" where
  "on_success r f = (case r of Inl e \<Rightarrow> Inl e | Inr v \<Rightarrow> f v)"

text \<open>\<open>v.get(key, default)\<close>: only a \<open>dict\<close> has the method.\<close>

definition dict_get :: "(string \<times> json) list \<Rightarrow> string \<Rightarrow> json \<Rightarrow> json" where
  "dict_get kvs key dflt = (case map_of kvs key of Some v \<Rightarrow> v | None \<Rightarrow> dflt)"

fun py_get :: "json \<Rightarrow> string \<Rightarrow> json \<Rightarrow> fault + json" where
  "py_get (JObj kvs) key dflt = Inr (dict_get kvs key dflt)"
| "py_get v key dflt = Inl (NoAttribute v ''get'')"

text \<open>\<open>for x in v\<close>: a list yields its elements, a dict its keys, a str its characters.\<close>

fun py_iter :: "json \<Rightarrow> fault + json list" where
  "py_iter (JArr xs) = Inr xs"
| "py_iter (JObj kvs) = Inr (map (\<lambda>kv. JStr (fst kv)) kvs)"
| "py_iter (JStr s) = Inr (map (\<lambda>c. JStr [c]) s)"
| "py_iter v = Inl (NotIterable v)"

text \<open>\<open>"." in v\<close>: substring test on a str, membership on a list, key test on a dict.\<close>

fun contains_dot :: "json \<Rightarrow> fault + bool" where
  "contains_dot (JStr s) = Inr (CHR ''.'' \<in> set s)"
| "contains_dot (JArr xs) = Inr (JStr ''.'' \<in> set xs)"
| "contains_dot (JObj kvs) = Inr (''.'' \<in> set (map fst kvs))"
| "contains_dot v = Inl (NotContainer v)"

text \<open>\<open>check_id.rsplit(".", 1)[-1]\<close>: only a str has the method.\<close>

fun rsplit_last :: "json \<Rightarrow> fault + json" where
  "rsplit_last (JStr s) = Inr (JStr (last (rsplit1 (CHR ''.'') s)))"
| "rsplit_last v = Inl (NoAttribute v ''rsplit'')"

text \<open>\<open>map_severity\<close> applied to a value: \<open>upper\<close> exists on a str only.\<close>

fun map_severity_value :: "json \<Rightarrow> fault + string" where
  "map_severity_value (JStr s) = Inr (map_severity s)"
| "map_severity_value v = Inl (NoAttribute v ''upper'')"

text \<open>\<open>map_category\<close> applied to a value: membership in a set hashes the value.\<close>

fun map_category_value :: "json \<Rightarrow> fault + string" where
  "map_category_value (JStr s) = Inr (map_category s)"
| "map_category_value (JArr xs) = Inl (Unhashable (JArr xs))"
| "map_category_value (JObj kvs) = Inl (Unhashable (JObj kvs))"
| "map_category_value v = Inr ''security''"

section \<open>Request and response models\<close>

record FileInput =
  path :: string
  content :: string

record ScanRequest =
  files :: "FileInput list"
  rules_config :: string

record Finding =
  rule_id :: string
  path :: string
  line :: int
  message :: string
  severity :: string
  category :: string

record ScanResponse =
  findings :: "Finding list"
  duration_ms :: int
  files_scanned :: int

text \<open>
  \<open>Finding(...)\<close>: the pydantic model validates its fields when it is built. A str is
  taken for a str field and an int for an int field as they are; what the library makes of
  any other value depends on its version, so both conversions are parameters.
\<close>

record pydantic =
  coerce_str :: "json \<Rightarrow> string option"
  coerce_int :: "json \<Rightarrow> int option"

fun validate_str :: "'a pydantic_scheme \<Rightarrow> json \<Rightarrow> string option" where
  "validate_str lib (JStr s) = Some s"
| "validate_str lib v = coerce_str lib v"

fun validate_int :: "'a pydantic_scheme \<Rightarrow> json \<Rightarrow> int option" where
  "validate_int lib (JInt n) = Some n"
| "validate_int lib v = coerce_int lib v"

definition Finding_init ::
  "'a pydantic_scheme \<Rightarrow> json \<Rightarrow> json \<Rightarrow> json \<Rightarrow> json \<Rightarrow> string \<Rightarrow> string \<Rightarrow> fault + Finding" where
  "Finding_init lib rid p ln msg sev cat =
     (case (validate_str lib rid, validate_str lib p, validate_int lib ln, validate_str lib msg) of
        (Some r, Some p', Some l, Some m) \<Rightarrow>
          Inr \<lparr>rule_id = r, path = p', line = l, message = m, severity = sev, category = cat\<rparr>
      | _ \<Rightarrow>
          Inl (ValidationError
            ((if validate_str lib rid = None then [(''rule_id'', rid)] else []) @
             (if validate_str lib p = None then [(''path'', p)] else []) @
             (if validate_int lib ln = None then [(''line'', ln)] else []) @
             (if validate_str lib msg = None then [(''message'', msg)] else []))))"

text \<open>The body of the loop of \<open>parse_semgrep_output\<close>, for one element of \<open>results\<close>.\<close>

definition parse_result :: "'a pydantic_scheme \<Rightarrow> json \<Rightarrow> fault + Finding" where
  "parse_result lib result =
     on_success (py_get result ''check_id'' (JStr ''unknown'')) (\<lambda>check_id0.
     on_success (contains_dot check_id0) (\<lambda>dotted.
     on_success (if dotted then rsplit_last check_id0 else Inr check_id0) (\<lambda>check_id.
     on_success (py_get result ''path'' (JStr [])) (\<lambda>p.
     on_success (py_get result ''start'' (JObj [])) (\<lambda>start.
     on_success (py_get start ''line'' (JInt 0)) (\<lambda>ln.
     on_success (py_get result ''extra'' (JObj [])) (\<lambda>extra.
     on_success (py_get extra ''message'' (JStr [])) (\<lambda>msg.
     on_success (py_get extra ''severity'' (JStr ''INFO'')) (\<lambda>sev0.
     on_success (map_severity_value sev0) (\<lambda>sev.
     on_success (map_category_value check_id) (\<lambda>cat.
       Finding_init lib check_id p ln msg sev cat)))))))))))"

text \<open>The loop: findings are appended in the order of the results; the first exception ends it.\<close>

fun parse_results :: "'a pydantic_scheme \<Rightarrow> json list \<Rightarrow> Finding list \<Rightarrow> fault + Finding list" where
  "parse_results lib [] found = Inr found"
| "parse_results lib (result # rest) found =
     on_success (parse_result lib result) (\<lambda>f. parse_results lib rest (found @ [f]))"

definition parse_semgrep_output :: "'a pydantic_scheme \<Rightarrow> json \<Rightarrow> fault + Finding list" where
  "parse_semgrep_output lib output =
     on_success (py_get output ''results'' (JArr [])) (\<lambda>results.
     on_success (py_iter results) (\<lambda>items.
       parse_results lib items []))"

section \<open>File system\<close>

text \<open>
  A POSIX file system without symbolic links and permissions: a node for every absolute
  path, given by its components from the root. The root is always a directory. Names are
  taken as they are: no limit on their length or their characters is modelled.
\<close>

datatype node = File string | Dir

type_synonym filesystem = "string list \<Rightarrow> node option"

definition node_at :: "filesystem \<Rightarrow> string list \<Rightarrow> node option" where
  "node_at fs p = (if p = [] then Some Dir else fs p)"

text \<open>\<open>s.split(sep)\<close> for a one-character separator.\<close>

fun split_on :: "char \<Rightarrow> string \<Rightarrow> string list" where
  "split_on sep [] = [[]]"
| "split_on sep (c # cs) =
     (if c = sep then [] # split_on sep cs
      else (case split_on sep cs of w # ws \<Rightarrow> (c # w) # ws | [] \<Rightarrow> [[c]]))"

text \<open>
  The components pathlib keeps of a path string: empty components and \<open>.\<close> are dropped,
  \<open>..\<close> is kept.
\<close>

definition parts :: "string \<Rightarrow> string list" where
  "parts s = filter (\<lambda>c. c \<noteq> [] \<and> c \<noteq> ''.'') (split_on (CHR ''/'') s)"

definition is_absolute :: "string \<Rightarrow> bool" where
  "is_absolute s = (case s of [] \<Rightarrow> False | c # cs \<Rightarrow> c = CHR ''/'')"

text \<open>\<open>str(path)\<close> of an absolute path.\<close>

fun path_str :: "string list \<Rightarrow> string" where
  "path_str [] = ''/''"
| "path_str [c] = CHR ''/'' # c"
| "path_str (c # cs) = CHR ''/'' # c @ path_str cs"

text \<open>
  \<open>Path(base) / p\<close> for an absolute \<open>base\<close>: an absolute \<open>p\<close> replaces the base, a
  relative one is appended to it. Nothing is resolved.
\<close>

definition joinpath :: "string \<Rightarrow> string \<Rightarrow> string list" where
  "joinpath base p = (if is_absolute p then parts p else parts base @ parts p)"

text \<open>
  How the operating system resolves components from a directory \<open>cur\<close>: every step is
  taken from an existing directory, and \<open>..\<close> goes to its parent. The last component need
  not exist.
\<close>

fun walk :: "filesystem \<Rightarrow> string list \<Rightarrow> string list \<Rightarrow> errno + string list" where
  "walk fs cur [] = Inr cur"
| "walk fs cur (c # cs) =
     (case node_at fs cur of
        None \<Rightarrow> Inl ENOENT
      | Some (File x) \<Rightarrow> Inl ENOTDIR
      | Some Dir \<Rightarrow> walk fs (if c = ''..'' then butlast cur else cur @ [c]) cs)"

definition os_exists :: "filesystem \<Rightarrow> string list \<Rightarrow> bool" where
  "os_exists fs p = (case walk fs [] p of Inl e \<Rightarrow> False | Inr t \<Rightarrow> node_at fs t \<noteq> None)"

definition os_is_dir :: "filesystem \<Rightarrow> string list \<Rightarrow> bool" where
  "os_is_dir fs p = (case walk fs [] p of Inl e \<Rightarrow> False | Inr t \<Rightarrow> node_at fs t = Some Dir)"

definition os_mkdir :: "filesystem \<Rightarrow> string list \<Rightarrow> errno + filesystem" where
  "os_mkdir fs p =
     (case walk fs [] p of
        Inl e \<Rightarrow> Inl e
      | Inr t \<Rightarrow> if node_at fs t \<noteq> None then Inl EEXIST else Inr (fs(t \<mapsto> Dir)))"

text \<open>\<open>p.mkdir(parents=False, exist_ok=True)\<close>.\<close>

definition mkdir_exist_ok :: "filesystem \<Rightarrow> string list \<Rightarrow> errno option \<times> filesystem" where
  "mkdir_exist_ok fs p =
     (case os_mkdir fs p of
        Inr fs' \<Rightarrow> (None, fs')
      | Inl ENOENT \<Rightarrow> (Some ENOENT, fs)
      | Inl e \<Rightarrow> if os_is_dir fs p then (None, fs) else (Some e, fs))"

text \<open>
  \<open>p.mkdir(parents=True, exist_ok=True)\<close>: on \<open>FileNotFoundError\<close> the parent is made
  first, then the directory itself once more; any other error is forgiven when the path
  is a directory.
\<close>

function mkdir_parents :: "filesystem \<Rightarrow> string list \<Rightarrow> errno option \<times> filesystem" where
  "mkdir_parents fs p =
     (case os_mkdir fs p of
        Inr fs' \<Rightarrow> (None, fs')
      | Inl ENOENT \<Rightarrow>
          if p = [] then (Some ENOENT, fs)
          else (case mkdir_parents fs (butlast p) of
                  (Some e, fs1) \<Rightarrow> (Some e, fs1)
                | (None, fs1) \<Rightarrow> mkdir_exist_ok fs1 p)
      | Inl e \<Rightarrow> if os_is_dir fs p then (None, fs) else (Some e, fs))"
  by pat_completeness auto
termination
  by (relation "measure (\<lambda>(fs, p). length p)") auto

text \<open>\<open>p.write_text(content)\<close>: the file is created or replaced; a directory is refused.\<close>

definition write_text :: "filesystem \<Rightarrow> string list \<Rightarrow> string \<Rightarrow> errno + filesystem" where
  "write_text fs p data =
     (case walk fs [] p of
        Inl e \<Rightarrow> Inl e
      | Inr t \<Rightarrow>
          (case node_at fs t of
             Some Dir \<Rightarrow> Inl EISDIR
           | _ \<Rightarrow> Inr (fs(t \<mapsto> File data))))"

text \<open>
  \<open>shutil.rmtree(p, ignore_errors=True)\<close>: every entry at or below the directory is
  removed, except the entries of \<open>keep\<close> (those the operating system refuses to remove)
  and the directories above them. No error is reported: when \<open>p\<close> is not a directory,
  nothing happens.
\<close>

definition rmtree :: "string list list \<Rightarrow> filesystem \<Rightarrow> string list \<Rightarrow> filesystem" where
  "rmtree keep fs p =
     (case walk fs [] p of
        Inl e \<Rightarrow> fs
      | Inr t \<Rightarrow>
          if node_at fs t \<noteq> Some Dir then fs
          else (\<lambda>q. if prefix t q \<and> \<not> (\<exists>k \<in> set keep. fs k \<noteq> None \<and> prefix q k)
                    then None else fs q))"

section \<open>The scan endpoint\<close>

text \<open>
  What the service takes from its surroundings: the two pydantic conversions, the text
  \<open>str(e)\<close> of an exception, the system's temporary directory and the random part of a
  fresh name in it, the directory of the service's own file, the engine (run on a command
  line, reading the file system; it completes with exit code, output and error stream,
  runs into the timeout, or cannot be run), \<open>json.loads\<close>, the milliseconds the clock
  measures for the request, and the entries that refuse removal.
\<close>

datatype run_outcome = Completed int string string | Timeout | RunFault fault

datatype loads_outcome = Loaded json | DecodeError | LoadFault fault

record platform = pydantic +
  exn_str :: "fault \<Rightarrow> string"
  tempdir :: "string list"
  tmp_suffix :: string
  service_dir :: "string list"
  run_engine :: "string list \<Rightarrow> filesystem \<Rightarrow> run_outcome"
  json_loads :: "string \<Rightarrow> loads_outcome"
  elapsed_ms :: int
  undeletable :: "string list list"

text \<open>
  What a request changes: the file system, and two logs kept for the proofs, of the
  command lines given to \<open>subprocess.run\<close> and of the directories given to
  \<open>shutil.rmtree\<close>.
\<close>

record world =
  disk :: filesystem
  engine_runs :: "string list list"
  rmtree_calls :: "string list"

definition RULES_PATH :: "platform \<Rightarrow> string list" where
  "RULES_PATH env = service_dir env @ [''rules.yml'']"

text \<open>
  \<open>tempfile.mkdtemp(prefix="semgrep-scan-")\<close>: a directory of that prefix and the random
  part is made in the temporary directory. A second try after a name collision is not
  modelled: the collision is an error.
\<close>

definition mkdtemp :: "platform \<Rightarrow> filesystem \<Rightarrow> fault + string \<times> filesystem" where
  "mkdtemp env fs =
     (let tmpdir = path_str (tempdir env @ [''semgrep-scan-'' @ tmp_suffix env])
      in case os_mkdir fs (parts tmpdir) of
           Inl e \<Rightarrow> Inl (OSError e (parts tmpdir))
         | Inr fs' \<Rightarrow> Inr (tmpdir, fs'))"

text \<open>The loop that writes the files of the request, in their order.\<close>

fun materialize :: "filesystem \<Rightarrow> string \<Rightarrow> FileInput list \<Rightarrow> fault option \<times> filesystem" where
  "materialize fs tmpdir [] = (None, fs)"
| "materialize fs tmpdir (file_input # rest) =
     (let file_path = joinpath tmpdir (FileInput.path file_input)
      in case mkdir_parents fs (butlast file_path) of
           (Some e, fs1) \<Rightarrow> (Some (OSError e (butlast file_path)), fs1)
         | (None, fs1) \<Rightarrow>
             (case write_text fs1 file_path (content file_input) of
                Inl e \<Rightarrow> (Some (OSError e file_path), fs1)
              | Inr fs2 \<Rightarrow> materialize fs2 tmpdir rest))"

text \<open>The path of a finding with the temporary directory's name removed from its front.\<close>

definition normalize_path :: "string \<Rightarrow> Finding \<Rightarrow> Finding" where
  "normalize_path tmpdir f =
     (if startswith (path f) tmpdir
      then f\<lparr>path := lstrip (CHR 0x5C) (lstrip (CHR ''/'') (drop (length tmpdir) (path f)))\<rparr>
      else f)"

text \<open>
  The ruleset argument: \<open>auto\<close> for the mode \<open>auto\<close>, the bundled rules file for every
  other mode, which must exist.
\<close>

definition config_arg :: "platform \<Rightarrow> filesystem \<Rightarrow> ScanRequest \<Rightarrow> exn + string" where
  "config_arg env fs request =
     (if rules_config request = ''auto'' then Inr ''auto''
      else if \<not> os_exists fs (RULES_PATH env)
      then Inl (HTTPException 500 ''rules.yml not found'')
      else Inr (path_str (RULES_PATH env)))"

text \<open>The command line \<open>cmd\<close>.\<close>

definition semgrep_cmd :: "string \<Rightarrow> string \<Rightarrow> string list" where
  "semgrep_cmd arg tmpdir =
     [''semgrep'', ''--config'', arg, ''--json'', ''--no-git-ignore'', ''--quiet'', tmpdir]"

text \<open>
  From the outcome of \<open>subprocess.run\<close> to the end of the \<open>try\<close> body: the exit code is
  checked, the output is parsed, the findings are built and their paths normalized.
\<close>

definition after_run ::
  "platform \<Rightarrow> string \<Rightarrow> ScanRequest \<Rightarrow> run_outcome \<Rightarrow> exn + ScanResponse" where
  "after_run env tmpdir request outcome =
     (case outcome of
        Timeout \<Rightarrow> Inl TimeoutExpired
      | RunFault f \<Rightarrow> Inl (Fault f)
      | Completed returncode out err \<Rightarrow>
          if returncode \<notin> {0, 1}
          then Inl (HTTPException 500 (''Semgrep error: '' @ take 500 err))
          else (case json_loads env out of
                  DecodeError \<Rightarrow>
                    Inl (HTTPException 500 (''Failed to parse Semgrep output: '' @ take 200 out))
                | LoadFault f \<Rightarrow> Inl (Fault f)
                | Loaded output \<Rightarrow>
                    (case parse_semgrep_output env output of
                       Inl f \<Rightarrow> Inl (Fault f)
                     | Inr found \<Rightarrow>
                         Inr \<lparr>findings = map (normalize_path tmpdir) found,
                              duration_ms = elapsed_ms env,
                              files_scanned = int (length (files request))\<rparr>)))"

text \<open>
  The body of the \<open>try\<close> statement: the files are written, the ruleset is chosen, the
  engine is run on the directory and its outcome is turned into the response.
\<close>

definition scan_body ::
  "platform \<Rightarrow> world \<Rightarrow> string \<Rightarrow> ScanRequest \<Rightarrow> (exn + ScanResponse) \<times> world" where
  "scan_body env w tmpdir request =
     (case materialize (disk w) tmpdir (files request) of
        (Some f, fs1) \<Rightarrow> (Inl (Fault f), w\<lparr>disk := fs1\<rparr>)
      | (None, fs1) \<Rightarrow>
          (case config_arg env fs1 request of
             Inl e \<Rightarrow> (Inl e, w\<lparr>disk := fs1\<rparr>)
           | Inr arg \<Rightarrow>
               (after_run env tmpdir request (run_engine env (semgrep_cmd arg tmpdir) fs1),
                w\<lparr>disk := fs1, engine_runs := engine_runs w @ [semgrep_cmd arg tmpdir]\<rparr>)))"

text \<open>The \<open>except\<close> clauses.\<close>

fun handlers :: "platform \<Rightarrow> exn + ScanResponse \<Rightarrow> exn + ScanResponse" where
  "handlers env (Inr response) = Inr response"
| "handlers env (Inl (HTTPException status detail)) = Inl (HTTPException status detail)"
| "handlers env (Inl TimeoutExpired) = Inl (HTTPException 504 ''Semgrep scan timed out'')"
| "handlers env (Inl (Fault f)) = Inl (HTTPException 500 (exn_str env f))"

text \<open>
  \<open>scan\<close>: the response or the exception that leaves the handler, and the world after it.
  The \<open>finally\<close> clause runs after the handlers, whatever they return.
\<close>

definition scan :: "platform \<Rightarrow> world \<Rightarrow> ScanRequest \<Rightarrow> (exn + ScanResponse) \<times> world" where
  "scan env w request =
     (if files request = []
      then (Inr \<lparr>findings = [], duration_ms = 0, files_scanned = 0\<rparr>, w)
      else case mkdtemp env (disk w) of
             Inl f \<Rightarrow> (Inl (Fault f), w)
           | Inr (tmpdir, fs0) \<Rightarrow>
               (case scan_body env (w\<lparr>disk := fs0\<rparr>) tmpdir request of
                  (r, w1) \<Rightarrow>
                    (handlers env r,
                     w1\<lparr>disk := rmtree (undeletable env) (disk w1) (parts tmpdir),
                        rmtree_calls := rmtree_calls w1 @ [tmpdir]\<rparr>)))"

section \<open>Concrete surroundings\<close>

text \<open>A pydantic that converts nothing, and one raw result as the engine prints it.\<close>

definition strict_pydantic :: pydantic where
  "strict_pydantic = \<lparr>coerce_str = (\<lambda>v. None), coerce_int = (\<lambda>v. None)\<rparr>"


definition eval_finding :: Finding where
  "eval_finding =
     \<lparr>rule_id = ''js-eval-usage'', path = ''/tmp/scan/src/app.js'', line = 5,
      message = ''Avoid eval() - security risk'', severity = ''error'',
      category = ''security''\<rparr>"

text \<open>
  A machine: the temporary directory \<open>/tmp\<close>, the service in \<open>/app\<close> with its rules
  file, an engine that finds nothing, and a \<open>json.loads\<close> that knows three outputs.
\<close>

definition clean_stdout :: string where
  \<open>clean_stdout = ''{"results": []}''\<close>

definition eval_stdout :: string where
  \<open>eval_stdout =
     ''{"results": [{"check_id": "rules.js-eval-usage", "path": "/tmp/semgrep-scan-k3x9q2ab/src/dangerous.js", "start": {"line": 2}, "extra": {"message": "Avoid eval()", "severity": "ERROR"}}]}''\<close>

definition backslash_stdout :: string where
  \<open>backslash_stdout =
     ''{"results": [{"check_id": "rules.js-eval-usage", "path": "/tmp/semgrep-scan-k3x9q2ab/'' @
     [CHR 0x5C, CHR 0x5C] @
     ''/tmp/x.js", "start": {"line": 1}, "extra": {"message": "Avoid eval()", "severity": "ERROR"}}]}''\<close>

definition demo_finding :: "string \<Rightarrow> int \<Rightarrow> json" where
  "demo_finding p n =
     JObj [(''check_id'', JStr ''rules.js-eval-usage''),
           (''path'', JStr p),
           (''start'', JObj [(''line'', JInt n)]),
           (''extra'', JObj [(''message'', JStr ''Avoid eval()''), (''severity'', JStr ''ERROR'')])]"

definition demo_loads :: "string \<Rightarrow> loads_outcome" where
  "demo_loads s =
     (if s = clean_stdout then Loaded (JObj [(''results'', JArr [])])
      else if s = eval_stdout
      then Loaded (JObj [(''results'',
             JArr [demo_finding ''/tmp/semgrep-scan-k3x9q2ab/src/dangerous.js'' 2])])
      else if s = backslash_stdout
      then Loaded (JObj [(''results'',
             JArr [demo_finding (''/tmp/semgrep-scan-k3x9q2ab/'' @ [CHR 0x5C] @ ''/tmp/x.js'') 1])])
      else DecodeError)"

definition demo_platform :: platform where
  "demo_platform =
     \<lparr>coerce_str = (\<lambda>v. None), coerce_int = (\<lambda>v. None),
      exn_str = (\<lambda>f. ''error''),
      tempdir = [''tmp''], tmp_suffix = ''k3x9q2ab'', service_dir = [''app''],
      run_engine = (\<lambda>cmd fs. Completed 0 clean_stdout []),
      json_loads = demo_loads,
      elapsed_ms = 42,
      undeletable = []\<rparr>"

definition demo_world :: world where
  "demo_world =
     \<lparr>disk = Map.empty([''tmp''] \<mapsto> Dir, [''app''] \<mapsto> Dir,
                       [''app'', ''rules.yml''] \<mapsto> File ''rules: []''),
      engine_runs = [], rmtree_calls = []\<rparr>"

definition demo_tmpdir :: string where
  "demo_tmpdir = ''/tmp/semgrep-scan-k3x9q2ab''"

text \<open>The file system after \<open>mkdtemp\<close>, and after the files of a request are written.\<close>

definition demo_fs0 :: filesystem where
  "demo_fs0 = (disk demo_world)([''tmp'', ''semgrep-scan-k3x9q2ab''] \<mapsto> Dir)"

definition js_request :: ScanRequest where
  "js_request =
     \<lparr>files = [\<lparr>FileInput.path = ''src/dangerous.js'',
                 content = ''function run(input) { return eval(input); }''\<rparr>],
      rules_config = ''custom''\<rparr>"

definition js_fs1 :: filesystem where
  "js_fs1 =
     demo_fs0([''tmp'', ''semgrep-scan-k3x9q2ab'', ''src''] \<mapsto> Dir,
              [''tmp'', ''semgrep-scan-k3x9q2ab'', ''src'', ''dangerous.js''] \<mapsto>
                File ''function run(input) { return eval(input); }'')"

text \<open>A request whose paths leave the workspace, and one whose path starts with a backslash.\<close>

definition escape_request :: ScanRequest where
  "escape_request =
     \<lparr>files = [\<lparr>FileInput.path = ''../evil.js'', content = ''x''\<rparr>,
               \<lparr>FileInput.path = ''/etc/cron.d/job'', content = ''y''\<rparr>],
      rules_config = ''custom''\<rparr>"

definition backslash_request :: ScanRequest where
  "backslash_request =
     \<lparr>files = [\<lparr>FileInput.path = [CHR 0x5C] @ ''/tmp/x.js'', content = ''eval(x)''\<rparr>],
      rules_config = ''custom''\<rparr>"

text \<open>
  An output of 5000 digits: \<open>json.loads\<close> raises \<open>ValueError\<close> on it (the limit of integer
  string conversion), which is no \<open>JSONDecodeError\<close>. The machine on which the engine
  prints it.
\<close>

definition digits_stdout :: string where
  "digits_stdout = replicate 5000 (CHR ''1'')"

definition digits_platform :: platform where
  "digits_platform =
     demo_platform
       \<lparr>exn_str := (\<lambda>f. ''Exceeds the limit (4300 digits) for integer string conversion''),
        run_engine := (\<lambda>cmd fs. Completed 0 digits_stdout []),
        json_loads := (\<lambda>s. if s = digits_stdout then LoadFault (Other ''ValueError'')
                            else demo_loads s)\<rparr>"

section \<open>Properties of the parser\<close>

lemma on_success_Inr_iff: "on_success r k = Inr y \<longleftrightarrow> (\<exists>v. r = Inr v \<and> k v = Inr y)"
  by (cases r) (simp_all add: on_success_def)

lemma py_get_Inr_iff:
  "py_get r key d = Inr v \<longleftrightarrow> (\<exists>kvs. r = JObj kvs \<and> dict_get kvs key d = v)"
  by (cases r) auto

lemma map_severity_value_Inr_iff:
  "map_severity_value v = Inr sev \<longleftrightarrow> (\<exists>s. v = JStr s \<and> map_severity s = sev)"
  by (cases v) auto

lemma Finding_init_Inr:
  "Finding_init lib rid p ln msg sev cat = Inr f \<Longrightarrow>
     validate_str lib rid = Some (rule_id f) \<and> validate_str lib p = Some (path f) \<and>
     validate_int lib ln = Some (line f) \<and> validate_str lib msg = Some (message f) \<and>
     severity f = sev \<and> category f = cat"
  by (auto simp: Finding_init_def split: option.splits)

text \<open>What a result that yields a finding looks like, and where each field comes from.\<close>

lemma parse_result_Inr:
  assumes "parse_result lib r = Inr f"
  shows "\<exists>kvs dotted cid st ex sv.
     r = JObj kvs \<and>
     contains_dot (dict_get kvs ''check_id'' (JStr ''unknown'')) = Inr dotted \<and>
     (if dotted then rsplit_last (dict_get kvs ''check_id'' (JStr ''unknown''))
      else Inr (dict_get kvs ''check_id'' (JStr ''unknown''))) = Inr cid \<and>
     validate_str lib cid = Some (rule_id f) \<and>
     map_category_value cid = Inr (category f) \<and>
     validate_str lib (dict_get kvs ''path'' (JStr [])) = Some (path f) \<and>
     dict_get kvs ''start'' (JObj []) = JObj st \<and>
     validate_int lib (dict_get st ''line'' (JInt 0)) = Some (line f) \<and>
     dict_get kvs ''extra'' (JObj []) = JObj ex \<and>
     validate_str lib (dict_get ex ''message'' (JStr [])) = Some (message f) \<and>
     dict_get ex ''severity'' (JStr ''INFO'') = JStr sv \<and>
     severity f = map_severity sv"
  using assms
  apply (simp add: parse_result_def on_success_Inr_iff py_get_Inr_iff map_severity_value_Inr_iff)
  apply (elim exE conjE)
  apply (drule Finding_init_Inr)
  apply fastforce
  done


lemma map_severity_cases:
  "map_severity s =
     (if upper s = ''ERROR'' then ''error''
      else if upper s = ''WARNING'' then ''warning'' else ''info'')"
  by (simp add: map_severity_def severity_mapping_def)

lemma upper_idem: "upper (upper s) = upper s"
proof -
  have "upper_char (upper_char c) = upper_char c" for c
    by (simp add: upper_char_def upper_table_def)
  then show ?thesis by (simp add: upper_def)
qed


lemma rsplit1_no_sep: "sep \<notin> set s \<Longrightarrow> last (rsplit1 sep s) = s"
  by (simp add: rsplit1_def)

subsection \<open>Severity\<close>

text \<open>
  Claim C3. The severity mapping is total and closed: every token is mapped to one of
  \<open>error\<close>, \<open>warning\<close> and \<open>info\<close>; the tokens \<open>ERROR\<close>, \<open>WARNING\<close> and \<open>INFO\<close> are
  mapped to \<open>error\<close>, \<open>warning\<close> and \<open>info\<close>, in whatever case they are written (the
  token is compared after \<open>upper\<close>); every other token is mapped to \<open>info\<close>. In a
  finding built from a raw result the severity is one of the three, and it is \<open>info\<close> when
  the result has no \<open>extra\<close> record or its \<open>extra\<close> record has no severity.
\<close>

theorem map_severity_total_closed:
  "map_severity s \<in> {''error'', ''warning'', ''info''} \<and>
   map_severity ''ERROR'' = ''error'' \<and>
   map_severity ''WARNING'' = ''warning'' \<and>
   map_severity ''INFO'' = ''info'' \<and>
   map_severity (upper s) = map_severity s \<and>
   (upper s = ''ERROR'' \<longrightarrow> map_severity s = ''error'') \<and>
   (upper s = ''WARNING'' \<longrightarrow> map_severity s = ''warning'') \<and>
   (upper s = ''INFO'' \<longrightarrow> map_severity s = ''info'') \<and>
   (upper s \<notin> {''ERROR'', ''WARNING'', ''INFO''} \<longrightarrow> map_severity s = ''info'') \<and>
   (parse_result lib (JObj kvs) = Inr f \<longrightarrow>
      severity f \<in> {''error'', ''warning'', ''info''} \<and>
      (map_of kvs ''extra'' = None \<longrightarrow> severity f = ''info'') \<and>
      (\<forall>ex. map_of kvs ''extra'' = Some (JObj ex) \<and> map_of ex ''severity'' = None \<longrightarrow>
            severity f = ''info''))"
proof -
  have closed: "map_severity t \<in> {''error'', ''warning'', ''info''}" for t
    by (simp add: map_severity_cases)
  have tokens: "map_severity ''ERROR'' = ''error''" "map_severity ''WARNING'' = ''warning''"
    "map_severity ''INFO'' = ''info''"
    by (simp_all add: map_severity_cases upper_def upper_char_def upper_table_def)
  have fold: "map_severity (upper s) = map_severity s"
    by (simp add: map_severity_cases upper_idem)
  have matched: "upper s = ''ERROR'' \<longrightarrow> map_severity s = ''error''"
    "upper s = ''WARNING'' \<longrightarrow> map_severity s = ''warning''"
    "upper s = ''INFO'' \<longrightarrow> map_severity s = ''info''"
    "upper s \<notin> {''ERROR'', ''WARNING'', ''INFO''} \<longrightarrow> map_severity s = ''info''"
    by (simp_all add: map_severity_cases)
  have built: "severity f \<in> {''error'', ''warning'', ''info''} \<and>
      (map_of kvs ''extra'' = None \<longrightarrow> severity f = ''info'') \<and>
      (\<forall>ex. map_of kvs ''extra'' = Some (JObj ex) \<and> map_of ex ''severity'' = None \<longrightarrow>
            severity f = ''info'')"
    if ok: "parse_result lib (JObj kvs) = Inr f"
  proof -
    from parse_result_Inr [OF ok] obtain ex sv where
      ex: "dict_get kvs ''extra'' (JObj []) = JObj ex" and
      sv: "dict_get ex ''severity'' (JStr ''INFO'') = JStr sv" and
      sev: "severity f = map_severity sv"
      by auto
    have "severity f \<in> {''error'', ''warning'', ''info''}"
      using closed [of sv] sev by simp
    moreover have "severity f = ''info''" if "map_of kvs ''extra'' = None"
      using that ex sv sev tokens(3) by (auto simp: dict_get_def)
    moreover have "severity f = ''info''"
      if "map_of kvs ''extra'' = Some (JObj ex')" "map_of ex' ''severity'' = None" for ex'
      using that ex sv sev tokens(3) by (auto simp: dict_get_def)
    ultimately show ?thesis by blast
  qed
  from closed [of s] tokens fold matched built show ?thesis by blast
qed

theorem map_severity_total_closed_witness:
  "map_severity ''wArNiNg'' = ''warning'' \<and>
   map_severity ''weird'' = ''info'' \<and>
   parse_result strict_pydantic (JObj [(''check_id'', JStr ''x'')]) =
     Inr \<lparr>rule_id = ''x'', path = [], line = 0, message = [], severity = ''info'',
          category = ''security''\<rparr>"
proof -
  have u: "upper ''wArNiNg'' = ''WARNING''" "upper ''weird'' \<notin> {''ERROR'', ''WARNING'', ''INFO''}"
    by (simp_all add: upper_def upper_char_def upper_table_def)
  have p: "parse_result strict_pydantic (JObj [(''check_id'', JStr ''x'')]) =
     Inr \<lparr>rule_id = ''x'', path = [], line = 0, message = [], severity = ''info'',
          category = ''security''\<rparr>"
    by code_simp
  from map_severity_total_closed [of "''wArNiNg''"] u(1)
  have a: "map_severity ''wArNiNg'' = ''warning''" by blast
  from map_severity_total_closed [of "''weird''"] u(2)
  have b: "map_severity ''weird'' = ''info''" by blast
  from a b p show ?thesis by blast
qed

subsection \<open>Category\<close>

text \<open>
  Claim C4. The category of a rule id is \<open>quality\<close> exactly when the id is the one
  reserved id \<open>test-todo-skip\<close>, and \<open>security\<close> for every other id, whether the list
  of known security rules has it or not.
\<close>

theorem map_category_quality_iff:
  "(map_category r = ''quality'' \<longleftrightarrow> r = ''test-todo-skip'') \<and>
   (r \<noteq> ''test-todo-skip'' \<longrightarrow> map_category r = ''security'') \<and>
   (r \<notin> set security_rules \<and> r \<noteq> ''test-todo-skip'' \<longrightarrow> map_category r = ''security'') \<and>
   map_category r \<in> {''quality'', ''security''}"
proof -
  have "''test-todo-skip'' \<notin> set security_rules"
    by (simp add: security_rules_def)
  then show ?thesis
    by (auto simp: map_category_def)
qed

theorem map_category_quality_iff_witness:
  "map_category ''test-todo-skip'' = ''quality'' \<and>
   ''no-such-rule'' \<notin> set security_rules \<and> map_category ''no-such-rule'' = ''security'' \<and>
   ''js-eval-usage'' \<in> set security_rules \<and> map_category ''js-eval-usage'' = ''security''"
proof -
  have n: "''no-such-rule'' \<notin> set security_rules" "''js-eval-usage'' \<in> set security_rules"
    by (simp_all add: security_rules_def)
  have d: "''no-such-rule'' \<noteq> ''test-todo-skip''" "''js-eval-usage'' \<noteq> ''test-todo-skip''"
    by simp_all
  from map_category_quality_iff [of "''test-todo-skip''"]
  have a: "map_category ''test-todo-skip'' = ''quality''" by blast
  from map_category_quality_iff [of "''no-such-rule''"] d(1)
  have b: "map_category ''no-such-rule'' = ''security''" by blast
  from map_category_quality_iff [of "''js-eval-usage''"] d(2)
  have c: "map_category ''js-eval-usage'' = ''security''" by blast
  from a b c n show ?thesis by blast
qed

subsection \<open>Rule id\<close>



section \<open>Properties of the scan\<close>

subsection \<open>The paths through the scan\<close>

lemma scan_no_files:
  "files request = [] \<Longrightarrow>
     scan env w request = (Inr \<lparr>findings = [], duration_ms = 0, files_scanned = 0\<rparr>, w)"
  by (simp add: scan_def)

lemma scan_no_workspace:
  "files request \<noteq> [] \<Longrightarrow> mkdtemp env (disk w) = Inl f \<Longrightarrow>
     scan env w request = (Inl (Fault f), w)"
  by (simp add: scan_def)

lemma scan_write_fails:
  assumes "files request \<noteq> []"
    and "mkdtemp env (disk w) = Inr (tmpdir, fs0)"
    and "materialize fs0 tmpdir (files request) = (Some f, fs1)"
  shows "fst (scan env w request) = Inl (HTTPException 500 (exn_str env f))"
    and "engine_runs (snd (scan env w request)) = engine_runs w"
  using assms by (simp_all add: scan_def scan_body_def)

lemma scan_config_fails:
  assumes "files request \<noteq> []"
    and "mkdtemp env (disk w) = Inr (tmpdir, fs0)"
    and "materialize fs0 tmpdir (files request) = (None, fs1)"
    and "config_arg env fs1 request = Inl e"
  shows "fst (scan env w request) = handlers env (Inl e)"
    and "engine_runs (snd (scan env w request)) = engine_runs w"
  using assms by (simp_all add: scan_def scan_body_def)

lemma scan_engine_run:
  assumes "files request \<noteq> []"
    and "mkdtemp env (disk w) = Inr (tmpdir, fs0)"
    and "materialize fs0 tmpdir (files request) = (None, fs1)"
    and "config_arg env fs1 request = Inr arg"
  shows "fst (scan env w request) =
           handlers env (after_run env tmpdir request (run_engine env (semgrep_cmd arg tmpdir) fs1))"
    and "engine_runs (snd (scan env w request)) = engine_runs w @ [semgrep_cmd arg tmpdir]"
  using assms by (simp_all add: scan_def scan_body_def)














subsection \<open>Directories stay, and the workspace goes\<close>











subsection \<open>The machine of the examples\<close>

lemma demo_mkdtemp:
  "tempdir env = [''tmp''] \<Longrightarrow> tmp_suffix env = ''k3x9q2ab'' \<Longrightarrow>
     mkdtemp env (disk demo_world) = Inr (demo_tmpdir, demo_fs0)"
  by (simp add: mkdtemp_def demo_world_def demo_tmpdir_def demo_fs0_def os_mkdir_def parts_def
      node_at_def)

lemma js_materialize: "materialize demo_fs0 demo_tmpdir (files js_request) = (None, js_fs1)"
  by (simp add: js_request_def js_fs1_def demo_fs0_def demo_world_def demo_tmpdir_def
      joinpath_def is_absolute_def parts_def os_mkdir_def node_at_def os_is_dir_def
      write_text_def mkdir_exist_ok_def)

lemma js_config_arg:
  "service_dir env = [''app''] \<Longrightarrow> rules_config request \<noteq> ''auto'' \<Longrightarrow>
     config_arg env js_fs1 request = Inr ''/app/rules.yml''"
  by (simp add: config_arg_def RULES_PATH_def os_exists_def js_fs1_def
      demo_fs0_def demo_world_def node_at_def)

lemma js_files: "files js_request \<noteq> []" "rules_config js_request \<noteq> ''auto''"
  by (simp_all add: js_request_def)

subsection \<open>Responses\<close>

lemma handlers_Inr_iff: "handlers env r = Inr response \<longleftrightarrow> r = Inr response"
  by (induction env r rule: handlers.induct) simp_all

lemma after_run_Inr:
  assumes "after_run env tmpdir request outcome = Inr response"
  shows "files_scanned response = int (length (files request))"
  using assms
  by (auto simp: after_run_def
      split: run_outcome.splits loads_outcome.splits sum.splits if_splits)

lemma scan_body_Inr:
  assumes "fst (scan_body env w tmpdir request) = Inr response"
  shows "files_scanned response = int (length (files request))"
  using assms
  by (auto simp: scan_body_def dest: after_run_Inr split: prod.splits option.splits sum.splits)

text \<open>
  Claim C9. A request without files is answered with no findings, duration 0 and 0 files
  scanned, and it leaves the world as it was: no directory is made and the engine is not
  run. In every response of a scan, the number of files scanned is the number of files of
  the request.
\<close>

theorem scan_files_scanned:
  "(files request = [] \<longrightarrow>
      scan env w request = (Inr \<lparr>findings = [], duration_ms = 0, files_scanned = 0\<rparr>, w)) \<and>
   (fst (scan env w request) = Inr response \<longrightarrow>
      files_scanned response = int (length (files request)))"
proof -
  have "files_scanned response = int (length (files request))"
    if ok: "fst (scan env w request) = Inr response"
  proof (cases "files request = []")
    case True
    with ok show ?thesis by (auto simp: scan_no_files)
  next
    case False
    show ?thesis
    proof (cases "mkdtemp env (disk w)")
      case (Inl f)
      with False ok show ?thesis by (simp add: scan_no_workspace)
    next
      case (Inr made)
      obtain tmpdir fs0 where made: "made = (tmpdir, fs0)" by (cases made)
      obtain r w1 where b: "scan_body env (w\<lparr>disk := fs0\<rparr>) tmpdir request = (r, w1)"
        by (cases "scan_body env (w\<lparr>disk := fs0\<rparr>) tmpdir request")
      with False Inr made ok have "handlers env r = Inr response"
        by (simp add: scan_def)
      then have "r = Inr response" by (simp add: handlers_Inr_iff)
      with b have "fst (scan_body env (w\<lparr>disk := fs0\<rparr>) tmpdir request) = Inr response"
        by simp
      then show ?thesis by (rule scan_body_Inr)
    qed
  qed
  then show ?thesis by (simp add: scan_no_files)
qed

theorem scan_files_scanned_witness:
  "scan demo_platform demo_world \<lparr>files = [], rules_config = ''custom''\<rparr> =
     (Inr \<lparr>findings = [], duration_ms = 0, files_scanned = 0\<rparr>, demo_world) \<and>
   fst (scan demo_platform demo_world js_request) =
     Inr \<lparr>findings = [], duration_ms = 42, files_scanned = 1\<rparr> \<and>
   files_scanned \<lparr>findings = [], duration_ms = 42, files_scanned = 1\<rparr> =
     int (length (files js_request))"
proof -
  have e: "files \<lparr>files = [], rules_config = ''custom''\<rparr> = []" by simp
  have r: "fst (scan demo_platform demo_world js_request) =
     Inr \<lparr>findings = [], duration_ms = 42, files_scanned = 1\<rparr>"
    by code_simp
  from scan_files_scanned
    [of "\<lparr>files = [], rules_config = ''custom''\<rparr>" demo_platform demo_world] e
  have a: "scan demo_platform demo_world \<lparr>files = [], rules_config = ''custom''\<rparr> =
     (Inr \<lparr>findings = [], duration_ms = 0, files_scanned = 0\<rparr>, demo_world)"
    by blast
  from scan_files_scanned
    [of js_request demo_platform demo_world
        "\<lparr>findings = [], duration_ms = 42, files_scanned = 1\<rparr>"] r
  have b: "files_scanned \<lparr>findings = [], duration_ms = 42, files_scanned = 1\<rparr> =
     int (length (files js_request))"
    by blast
  from a r b show ?thesis by blast
qed

subsection \<open>Ruleset mode\<close>

text \<open>
  Claim C10. Every value of \<open>rules_config\<close> other than \<open>auto\<close> is the custom mode: the scan
  is the scan of the same request with \<open>custom\<close>. When the files are written, such a scan
  fails with \<open>rules.yml not found\<close> and without running the engine if the bundled rules
  file is missing, and runs the engine on the bundled rules file otherwise. No value is
  refused: the scan of any request is its scan with \<open>auto\<close> or its scan with \<open>custom\<close>.
\<close>

theorem rules_config_custom_unless_auto:
  "(rules_config request \<noteq> ''auto'' \<longrightarrow>
      scan env w request = scan env w (request\<lparr>rules_config := ''custom''\<rparr>)) \<and>
   (scan env w request = scan env w (request\<lparr>rules_config := ''auto''\<rparr>) \<or>
    scan env w request = scan env w (request\<lparr>rules_config := ''custom''\<rparr>)) \<and>
   (rules_config request \<noteq> ''auto'' \<and> files request \<noteq> [] \<and>
    mkdtemp env (disk w) = Inr (tmpdir, fs0) \<and>
    materialize fs0 tmpdir (files request) = (None, fs1) \<longrightarrow>
      (os_exists fs1 (RULES_PATH env) \<longrightarrow>
         engine_runs (snd (scan env w request)) =
           engine_runs w @ [semgrep_cmd (path_str (RULES_PATH env)) tmpdir]) \<and>
      (\<not> os_exists fs1 (RULES_PATH env) \<longrightarrow>
         fst (scan env w request) = Inl (HTTPException 500 ''rules.yml not found'') \<and>
         engine_runs (snd (scan env w request)) = engine_runs w))"
proof -
  have c: "config_arg env fs (request\<lparr>rules_config := ''custom''\<rparr>) = config_arg env fs request"
    if "rules_config request \<noteq> ''auto''" for fs
    using that by (simp add: config_arg_def)
  have a: "after_run env t (request\<lparr>rules_config := ''custom''\<rparr>) outcome =
           after_run env t request outcome" for t outcome
    by (simp add: after_run_def split: run_outcome.splits loads_outcome.splits sum.splits)
  have b: "scan_body env w' t (request\<lparr>rules_config := ''custom''\<rparr>) = scan_body env w' t request"
    if "rules_config request \<noteq> ''auto''" for w' t
    using that by (simp add: scan_body_def c a split: prod.splits option.splits sum.splits)
  have custom: "scan env w request = scan env w (request\<lparr>rules_config := ''custom''\<rparr>)"
    if "rules_config request \<noteq> ''auto''"
    unfolding scan_def b [OF that] by simp
  have auto: "scan env w request = scan env w (request\<lparr>rules_config := ''auto''\<rparr>)"
    if "rules_config request = ''auto''"
  proof -
    from that have "request\<lparr>rules_config := ''auto''\<rparr> = request" by simp
    then show ?thesis by simp
  qed
  have rules: "(os_exists fs1 (RULES_PATH env) \<longrightarrow>
         engine_runs (snd (scan env w request)) =
           engine_runs w @ [semgrep_cmd (path_str (RULES_PATH env)) tmpdir]) \<and>
      (\<not> os_exists fs1 (RULES_PATH env) \<longrightarrow>
         fst (scan env w request) = Inl (HTTPException 500 ''rules.yml not found'') \<and>
         engine_runs (snd (scan env w request)) = engine_runs w)"
    if h: "rules_config request \<noteq> ''auto''" "files request \<noteq> []"
      "mkdtemp env (disk w) = Inr (tmpdir, fs0)"
      "materialize fs0 tmpdir (files request) = (None, fs1)"
  proof (cases "os_exists fs1 (RULES_PATH env)")
    case True
    with h(1) have "config_arg env fs1 request = Inr (path_str (RULES_PATH env))"
      by (simp add: config_arg_def)
    from scan_engine_run(2) [OF h(2,3,4) this] True show ?thesis by simp
  next
    case False
    with h(1) have "config_arg env fs1 request = Inl (HTTPException 500 ''rules.yml not found'')"
      by (simp add: config_arg_def)
    from scan_config_fails [OF h(2,3,4) this] False show ?thesis by simp
  qed
  from custom auto rules show ?thesis by blast
qed

theorem rules_config_custom_unless_auto_witness:
  "scan demo_platform demo_world (js_request\<lparr>rules_config := ''registry''\<rparr>) =
     scan demo_platform demo_world (js_request\<lparr>rules_config := ''custom''\<rparr>) \<and>
   engine_runs (snd (scan demo_platform demo_world (js_request\<lparr>rules_config := ''registry''\<rparr>))) =
     [semgrep_cmd ''/app/rules.yml'' demo_tmpdir]"
proof -
  let ?r = "js_request\<lparr>rules_config := ''registry''\<rparr>"
  have n: "rules_config ?r \<noteq> ''auto''" "files ?r \<noteq> []"
    by (simp_all add: js_request_def)
  have t: "mkdtemp demo_platform (disk demo_world) = Inr (demo_tmpdir, demo_fs0)"
    by (rule demo_mkdtemp) (simp_all add: demo_platform_def)
  have m: "materialize demo_fs0 demo_tmpdir (files ?r) = (None, js_fs1)"
    using js_materialize by simp
  have x: "os_exists js_fs1 (RULES_PATH demo_platform)"
    by (simp add: RULES_PATH_def demo_platform_def os_exists_def js_fs1_def demo_fs0_def
        demo_world_def node_at_def)
  have y: "engine_runs demo_world @ [semgrep_cmd (path_str (RULES_PATH demo_platform)) demo_tmpdir] =
           [semgrep_cmd ''/app/rules.yml'' demo_tmpdir]"
    by (simp add: RULES_PATH_def demo_platform_def demo_world_def)
  have u: "?r\<lparr>rules_config := ''custom''\<rparr> = js_request\<lparr>rules_config := ''custom''\<rparr>"
    by simp
  note inst = rules_config_custom_unless_auto
    [of ?r demo_platform demo_world demo_tmpdir demo_fs0 js_fs1]
  from inst n(1) have a: "scan demo_platform demo_world ?r =
      scan demo_platform demo_world (?r\<lparr>rules_config := ''custom''\<rparr>)"
    by blast
  from inst n t m x have e: "engine_runs (snd (scan demo_platform demo_world ?r)) =
      engine_runs demo_world @ [semgrep_cmd (path_str (RULES_PATH demo_platform)) demo_tmpdir]"
    by blast
  from e y have b: "engine_runs (snd (scan demo_platform demo_world ?r)) =
      [semgrep_cmd ''/app/rules.yml'' demo_tmpdir]"
    by (rule trans)
  from a have c: "scan demo_platform demo_world ?r =
      scan demo_platform demo_world (js_request\<lparr>rules_config := ''custom''\<rparr>)"
    unfolding u .
  from c b show ?thesis by (rule conjI)
qed

subsection \<open>Exit codes and engine output\<close>

text \<open>
  Claim C2. When the engine completes, an exit code other than 0 and 1 is a tool failure:
  the scan answers 500 with the first 500 characters of the error stream after the words
  \<open>Semgrep error:\<close>, a text of at most 515 characters. Exit code 1 is handled as exit
  code 0 is: the answer is the one the same output gives with exit code 0, and it is the
  response with the normalized findings when the output loads and parses.
\<close>

theorem exit_code_classification:
  assumes "files request \<noteq> []"
    and "mkdtemp env (disk w) = Inr (tmpdir, fs0)"
    and "materialize fs0 tmpdir (files request) = (None, fs1)"
    and "config_arg env fs1 request = Inr arg"
    and "run_engine env (semgrep_cmd arg tmpdir) fs1 = Completed returncode out err"
  shows "(returncode \<notin> {0, 1} \<longrightarrow>
           fst (scan env w request) =
             Inl (HTTPException 500 (''Semgrep error: '' @ take 500 err)) \<and>
           length (''Semgrep error: '' @ take 500 err) \<le> 515) \<and>
         (returncode \<in> {0, 1} \<longrightarrow>
           fst (scan env w request) =
             handlers env (after_run env tmpdir request (Completed 0 out err)) \<and>
           (\<forall>output found.
              json_loads env out = Loaded output \<and>
              parse_semgrep_output env output = Inr found \<longrightarrow>
                fst (scan env w request) =
                  Inr \<lparr>findings = map (normalize_path tmpdir) found,
                       duration_ms = elapsed_ms env,
                       files_scanned = int (length (files request))\<rparr>))"
proof -
  from scan_engine_run(1) [OF assms(1-4)] assms(5)
  have s: "fst (scan env w request) =
             handlers env (after_run env tmpdir request (Completed returncode out err))"
    by simp
  have bad: "fst (scan env w request) =
               Inl (HTTPException 500 (''Semgrep error: '' @ take 500 err)) \<and>
             length (''Semgrep error: '' @ take 500 err) \<le> 515"
    if "returncode \<notin> {0, 1}"
    using that s by (simp add: after_run_def)
  have same: "after_run env tmpdir request (Completed returncode out err) =
              after_run env tmpdir request (Completed 0 out err)"
    if "returncode \<in> {0, 1}"
    using that by (auto simp: after_run_def)
  have good: "fst (scan env w request) =
                  Inr \<lparr>findings = map (normalize_path tmpdir) found,
                       duration_ms = elapsed_ms env,
                       files_scanned = int (length (files request))\<rparr>"
    if "returncode \<in> {0, 1}" "json_loads env out = Loaded parsed"
      "parse_semgrep_output env parsed = Inr found" for parsed found
    using that s by (auto simp: after_run_def)
  from bad same good s show ?thesis by simp
qed

theorem exit_code_classification_witness:
  "fst (scan (demo_platform\<lparr>run_engine := \<lambda>cmd fs. Completed 2 [] ''Fatal error''\<rparr>)
          demo_world js_request) =
     Inl (HTTPException 500 ''Semgrep error: Fatal error'') \<and>
   fst (scan (demo_platform\<lparr>run_engine := \<lambda>cmd fs. Completed 1 eval_stdout []\<rparr>)
          demo_world js_request) =
     Inr \<lparr>findings =
            [\<lparr>rule_id = ''js-eval-usage'', path = ''src/dangerous.js'', line = 2,
              message = ''Avoid eval()'', severity = ''error'', category = ''security''\<rparr>],
          duration_ms = 42, files_scanned = 1\<rparr>"
proof -
  let ?bad = "demo_platform\<lparr>run_engine := \<lambda>cmd fs. Completed 2 [] ''Fatal error''\<rparr>"
  let ?one = "demo_platform\<lparr>run_engine := \<lambda>cmd fs. Completed 1 eval_stdout []\<rparr>"
  let ?raw = "\<lparr>rule_id = ''js-eval-usage'', path = ''/tmp/semgrep-scan-k3x9q2ab/src/dangerous.js'',
              line = 2, message = ''Avoid eval()'', severity = ''error'',
              category = ''security''\<rparr>"
  have t: "mkdtemp ?bad (disk demo_world) = Inr (demo_tmpdir, demo_fs0)"
    "mkdtemp ?one (disk demo_world) = Inr (demo_tmpdir, demo_fs0)"
    by (rule demo_mkdtemp; simp add: demo_platform_def)+
  have c: "config_arg ?bad js_fs1 js_request = Inr ''/app/rules.yml''"
    "config_arg ?one js_fs1 js_request = Inr ''/app/rules.yml''"
    by (rule js_config_arg; simp add: demo_platform_def js_files)+
  have r: "run_engine ?bad (semgrep_cmd ''/app/rules.yml'' demo_tmpdir) js_fs1 =
             Completed 2 [] ''Fatal error''"
    "run_engine ?one (semgrep_cmd ''/app/rules.yml'' demo_tmpdir) js_fs1 =
             Completed 1 eval_stdout []"
    by simp_all
  have l: "json_loads ?one eval_stdout =
             Loaded (JObj [(''results'',
               JArr [demo_finding ''/tmp/semgrep-scan-k3x9q2ab/src/dangerous.js'' 2])])"
    by (simp add: demo_platform_def demo_loads_def eval_stdout_def clean_stdout_def)
  have p: "parse_semgrep_output ?one (JObj [(''results'',
               JArr [demo_finding ''/tmp/semgrep-scan-k3x9q2ab/src/dangerous.js'' 2])]) =
             Inr [?raw]"
    by (simp add: parse_semgrep_output_def parse_result_def on_success_def demo_finding_def
        dict_get_def Finding_init_def rsplit1_def map_severity_cases upper_def upper_char_def
        upper_table_def map_category_def security_rules_def)
  have n: "map (normalize_path demo_tmpdir) [?raw] =
             [\<lparr>rule_id = ''js-eval-usage'', path = ''src/dangerous.js'', line = 2,
               message = ''Avoid eval()'', severity = ''error'', category = ''security''\<rparr>]"
    by (simp add: normalize_path_def startswith_def lstrip_def demo_tmpdir_def)
  have v: "elapsed_ms ?one = 42" "int (length (files js_request)) = 1"
    by (simp_all add: demo_platform_def js_request_def)
  have "(2::int) \<notin> {0, 1}" by simp
  with exit_code_classification [OF js_files(1) t(1) js_materialize c(1) r(1)]
  have a: "fst (scan ?bad demo_world js_request) =
             Inl (HTTPException 500 (''Semgrep error: '' @ take 500 ''Fatal error''))"
    by blast
  have "(1::int) \<in> {0, 1}" by simp
  with exit_code_classification [OF js_files(1) t(2) js_materialize c(2) r(2)] l p
  have b: "fst (scan ?one demo_world js_request) =
             Inr \<lparr>findings = map (normalize_path demo_tmpdir) [?raw],
                  duration_ms = elapsed_ms ?one,
                  files_scanned = int (length (files js_request))\<rparr>"
    by blast
  from a b show ?thesis
    unfolding n v by simp
qed

text \<open>
  Claim C8, amended. When the engine completes with exit code 0 or 1 and \<open>json.loads\<close>
  does not return a value, the scan answers 500: it is an answer of the service, neither a
  response with findings nor an exception that leaves the handlers. When \<open>json.loads\<close>
  raises \<open>JSONDecodeError\<close>, the answer carries the first 200 characters of the output
  after the words \<open>Failed to parse Semgrep output:\<close>, a text of at most 232 characters.
  When it raises any other exception, the answer carries the text of that exception and
  nothing of the output.
\<close>

theorem malformed_output_is_tool_failure:
  assumes "files request \<noteq> []"
    and "mkdtemp env (disk w) = Inr (tmpdir, fs0)"
    and "materialize fs0 tmpdir (files request) = (None, fs1)"
    and "config_arg env fs1 request = Inr arg"
    and "run_engine env (semgrep_cmd arg tmpdir) fs1 = Completed returncode out err"
    and "returncode \<in> {0, 1}"
  shows "(json_loads env out = DecodeError \<longrightarrow>
           fst (scan env w request) =
             Inl (HTTPException 500 (''Failed to parse Semgrep output: '' @ take 200 out)) \<and>
           length (''Failed to parse Semgrep output: '' @ take 200 out) \<le> 232) \<and>
         (\<forall>f. json_loads env out = LoadFault f \<longrightarrow>
           fst (scan env w request) = Inl (HTTPException 500 (exn_str env f))) \<and>
         ((\<forall>parsed. json_loads env out \<noteq> Loaded parsed) \<longrightarrow>
           (\<exists>detail. fst (scan env w request) = Inl (HTTPException 500 detail)))"
proof -
  from scan_engine_run(1) [OF assms(1-4)] assms(5)
  have s: "fst (scan env w request) =
          handlers env (after_run env tmpdir request (Completed returncode out err))"
    by simp
  have decode: "fst (scan env w request) =
             Inl (HTTPException 500 (''Failed to parse Semgrep output: '' @ take 200 out)) \<and>
           length (''Failed to parse Semgrep output: '' @ take 200 out) \<le> 232"
    if "json_loads env out = DecodeError"
    using that s assms(6) by (auto simp: after_run_def)
  have other: "fst (scan env w request) = Inl (HTTPException 500 (exn_str env f))"
    if "json_loads env out = LoadFault f" for f
    using that s assms(6) by (auto simp: after_run_def)
  have any: "\<exists>detail. fst (scan env w request) = Inl (HTTPException 500 detail)"
    if n: "\<forall>parsed. json_loads env out \<noteq> Loaded parsed"
  proof (cases "json_loads env out")
    case (Loaded parsed)
    with n show ?thesis by simp
  next
    case DecodeError
    with decode show ?thesis by blast
  next
    case (LoadFault f)
    with other show ?thesis by blast
  qed
  from decode other any show ?thesis by blast
qed

theorem malformed_output_is_tool_failure_witness:
  "fst (scan (demo_platform\<lparr>run_engine := \<lambda>cmd fs. Completed 0 ''Killed'' []\<rparr>)
          demo_world js_request) =
     Inl (HTTPException 500 ''Failed to parse Semgrep output: Killed'') \<and>
   fst (scan digits_platform demo_world js_request) =
     Inl (HTTPException 500
           ''Exceeds the limit (4300 digits) for integer string conversion'')"
proof -
  let ?env = "demo_platform\<lparr>run_engine := \<lambda>cmd fs. Completed 0 ''Killed'' []\<rparr>"
  have t: "mkdtemp ?env (disk demo_world) = Inr (demo_tmpdir, demo_fs0)"
    by (rule demo_mkdtemp; simp add: demo_platform_def)
  have c: "config_arg ?env js_fs1 js_request = Inr ''/app/rules.yml''"
    by (rule js_config_arg; simp add: demo_platform_def js_files)
  have r: "run_engine ?env (semgrep_cmd ''/app/rules.yml'' demo_tmpdir) js_fs1 =
             Completed 0 ''Killed'' []"
    by simp
  have z: "(0::int) \<in> {0, 1}" by simp
  have l: "json_loads ?env ''Killed'' = DecodeError"
    by (simp add: demo_platform_def demo_loads_def eval_stdout_def clean_stdout_def
        backslash_stdout_def)
  from malformed_output_is_tool_failure [OF js_files(1) t js_materialize c r z] l
  have "fst (scan ?env demo_world js_request) =
          Inl (HTTPException 500 (''Failed to parse Semgrep output: '' @ take 200 ''Killed''))"
    by blast
  then have a: "fst (scan ?env demo_world js_request) =
          Inl (HTTPException 500 ''Failed to parse Semgrep output: Killed'')"
    by simp
  have t': "mkdtemp digits_platform (disk demo_world) = Inr (demo_tmpdir, demo_fs0)"
    by (rule demo_mkdtemp; simp add: digits_platform_def demo_platform_def)
  have c': "config_arg digits_platform js_fs1 js_request = Inr ''/app/rules.yml''"
    by (rule js_config_arg; simp add: digits_platform_def demo_platform_def js_files)
  have r': "run_engine digits_platform (semgrep_cmd ''/app/rules.yml'' demo_tmpdir) js_fs1 =
             Completed 0 digits_stdout []"
    by (simp add: digits_platform_def)
  have l': "json_loads digits_platform digits_stdout = LoadFault (Other ''ValueError'')"
    by (simp add: digits_platform_def)
  have x: "exn_str digits_platform (Other ''ValueError'') =
             ''Exceeds the limit (4300 digits) for integer string conversion''"
    by (simp add: digits_platform_def)
  from malformed_output_is_tool_failure [OF js_files(1) t' js_materialize c' r' z] l'
  have "fst (scan digits_platform demo_world js_request) =
          Inl (HTTPException 500 (exn_str digits_platform (Other ''ValueError'')))"
    by blast
  then have b: "fst (scan digits_platform demo_world js_request) =
          Inl (HTTPException 500
                ''Exceeds the limit (4300 digits) for integer string conversion'')"
    unfolding x .
  from a b show ?thesis by (rule conjI)
qed

text \<open>
  Claim C8 as it is written fails on an output of 5000 digits: the engine exits with 0, the
  output does not load, and the answer is 500 with the text of the \<open>ValueError\<close>, which
  has nothing of the output in it.
\<close>

theorem unparsable_output_without_snippet:
  "run_engine digits_platform (semgrep_cmd ''/app/rules.yml'' demo_tmpdir) js_fs1 =
     Completed 0 digits_stdout [] \<and>
   json_loads digits_platform digits_stdout = LoadFault (Other ''ValueError'') \<and>
   fst (scan digits_platform demo_world js_request) =
     Inl (HTTPException 500
           ''Exceeds the limit (4300 digits) for integer string conversion'') \<and>
   fst (scan digits_platform demo_world js_request) \<noteq>
     Inl (HTTPException 500 (''Failed to parse Semgrep output: '' @ take 200 digits_stdout)) \<and>
   CHR ''1'' \<notin> set ''Exceeds the limit (4300 digits) for integer string conversion''"
proof -
  have a: "run_engine digits_platform (semgrep_cmd ''/app/rules.yml'' demo_tmpdir) js_fs1 =
     Completed 0 digits_stdout []"
    "json_loads digits_platform digits_stdout = LoadFault (Other ''ValueError'')"
    by (simp_all add: digits_platform_def)
  have b: "fst (scan digits_platform demo_world js_request) =
     Inl (HTTPException 500
           ''Exceeds the limit (4300 digits) for integer string conversion'')"
    by code_simp
  have c: "CHR ''1'' \<notin> set ''Exceeds the limit (4300 digits) for integer string conversion''"
    by simp
  from b have d: "fst (scan digits_platform demo_world js_request) \<noteq>
     Inl (HTTPException 500 (''Failed to parse Semgrep output: '' @ take 200 digits_stdout))"
    by simp
  from a b d c show ?thesis by blast
qed

subsection \<open>Timeout and cleanup\<close>




subsection \<open>Where the files are written\<close>

lemma materialize_step:
  assumes "mkdir_parents fs (butlast (joinpath tmpdir p)) = (None, fs')"
    and "walk fs' [] (joinpath tmpdir p) = Inr t"
    and "node_at fs' t \<noteq> Some Dir"
  shows "materialize fs tmpdir (\<lparr>FileInput.path = p, content = c\<rparr> # rest) =
           materialize (fs'(t \<mapsto> File c)) tmpdir rest"
  using assms
  by (auto simp: write_text_def Let_def split: option.splits node.splits)

text \<open>
  Claim C1, amended. The scan has no test of where a path resolves. A file whose path is
  absolute is written at that path, and any other at the path appended to the workspace,
  where the operating system resolves it (\<open>..\<close> goes to the parent directory), inside the
  workspace or not. The request fails as a whole, with 500 and before the engine is run,
  exactly when making a directory or writing a file raises, or when the bundled rules
  file is wanted and missing; in every other case the engine is run once.
\<close>

theorem paths_are_not_confined:
  "(is_absolute p \<longrightarrow> joinpath tmpdir p = parts p) \<and>
   (\<not> is_absolute p \<longrightarrow> joinpath tmpdir p = parts tmpdir @ parts p) \<and>
   (mkdir_parents fs (butlast (joinpath tmpdir p)) = (None, fs') \<and>
    walk fs' [] (joinpath tmpdir p) = Inr t \<and> node_at fs' t \<noteq> Some Dir \<longrightarrow>
      materialize fs tmpdir (\<lparr>FileInput.path = p, content = c\<rparr> # rest) =
        materialize (fs'(t \<mapsto> File c)) tmpdir rest) \<and>
   (files request \<noteq> [] \<and> mkdtemp env (disk w) = Inr (tmpdir, fs0) \<longrightarrow>
      (\<forall>f fs1. materialize fs0 tmpdir (files request) = (Some f, fs1) \<longrightarrow>
         fst (scan env w request) = Inl (HTTPException 500 (exn_str env f)) \<and>
         engine_runs (snd (scan env w request)) = engine_runs w) \<and>
      (\<forall>fs1. materialize fs0 tmpdir (files request) = (None, fs1) \<longrightarrow>
         (rules_config request \<noteq> ''auto'' \<and> \<not> os_exists fs1 (RULES_PATH env) \<longrightarrow>
            fst (scan env w request) = Inl (HTTPException 500 ''rules.yml not found'') \<and>
            engine_runs (snd (scan env w request)) = engine_runs w) \<and>
         (rules_config request = ''auto'' \<or> os_exists fs1 (RULES_PATH env) \<longrightarrow>
            (\<exists>arg. config_arg env fs1 request = Inr arg \<and>
               engine_runs (snd (scan env w request)) =
                 engine_runs w @ [semgrep_cmd arg tmpdir]))))"
proof -
  have j: "(is_absolute p \<longrightarrow> joinpath tmpdir p = parts p) \<and>
           (\<not> is_absolute p \<longrightarrow> joinpath tmpdir p = parts tmpdir @ parts p)"
    by (simp add: joinpath_def)
  have missing: "fst (scan env w request) = Inl (HTTPException 500 ''rules.yml not found'') \<and>
            engine_runs (snd (scan env w request)) = engine_runs w"
    if h: "files request \<noteq> []" "mkdtemp env (disk w) = Inr (tmpdir, fs0)"
      "materialize fs0 tmpdir (files request) = (None, fs1)"
      and c: "rules_config request \<noteq> ''auto''" "\<not> os_exists fs1 (RULES_PATH env)" for fs1
  proof -
    from c have "config_arg env fs1 request = Inl (HTTPException 500 ''rules.yml not found'')"
      by (simp add: config_arg_def)
    from scan_config_fails [OF h this] show ?thesis by simp
  qed
  have run: "\<exists>arg. config_arg env fs1 request = Inr arg \<and>
               engine_runs (snd (scan env w request)) = engine_runs w @ [semgrep_cmd arg tmpdir]"
    if h: "files request \<noteq> []" "mkdtemp env (disk w) = Inr (tmpdir, fs0)"
      "materialize fs0 tmpdir (files request) = (None, fs1)"
      and c: "rules_config request = ''auto'' \<or> os_exists fs1 (RULES_PATH env)" for fs1
  proof -
    from c have "\<exists>arg. config_arg env fs1 request = Inr arg"
      by (cases "rules_config request = ''auto''") (simp_all add: config_arg_def)
    then obtain arg where a: "config_arg env fs1 request = Inr arg" ..
    from scan_engine_run(2) [OF h a] a show ?thesis by blast
  qed
  have step: "mkdir_parents fs (butlast (joinpath tmpdir p)) = (None, fs') \<and>
      walk fs' [] (joinpath tmpdir p) = Inr t \<and> node_at fs' t \<noteq> Some Dir \<longrightarrow>
      materialize fs tmpdir (\<lparr>FileInput.path = p, content = c\<rparr> # rest) =
        materialize (fs'(t \<mapsto> File c)) tmpdir rest"
    using materialize_step [of fs tmpdir p fs' t c rest] by blast
  have fails: "\<forall>f fs1. materialize fs0 tmpdir (files request) = (Some f, fs1) \<longrightarrow>
         fst (scan env w request) = Inl (HTTPException 500 (exn_str env f)) \<and>
         engine_runs (snd (scan env w request)) = engine_runs w"
    if h: "files request \<noteq> []" "mkdtemp env (disk w) = Inr (tmpdir, fs0)"
    using scan_write_fails [OF h] by blast
  have written: "\<forall>fs1. materialize fs0 tmpdir (files request) = (None, fs1) \<longrightarrow>
         (rules_config request \<noteq> ''auto'' \<and> \<not> os_exists fs1 (RULES_PATH env) \<longrightarrow>
            fst (scan env w request) = Inl (HTTPException 500 ''rules.yml not found'') \<and>
            engine_runs (snd (scan env w request)) = engine_runs w) \<and>
         (rules_config request = ''auto'' \<or> os_exists fs1 (RULES_PATH env) \<longrightarrow>
            (\<exists>arg. config_arg env fs1 request = Inr arg \<and>
               engine_runs (snd (scan env w request)) =
                 engine_runs w @ [semgrep_cmd arg tmpdir]))"
    if h: "files request \<noteq> []" "mkdtemp env (disk w) = Inr (tmpdir, fs0)"
    using missing [OF h] run [OF h] by blast
  from j step fails written show ?thesis by blast
qed

theorem paths_are_not_confined_witness:
  "materialize demo_fs0 demo_tmpdir [\<lparr>FileInput.path = ''../evil.js'', content = ''x''\<rparr>] =
     (None, demo_fs0([''tmp'', ''evil.js''] \<mapsto> File ''x'')) \<and>
   joinpath demo_tmpdir ''/etc/cron.d/job'' = [''etc'', ''cron.d'', ''job'']"
proof -
  let ?p = "''../evil.js''"
  have m: "mkdir_parents demo_fs0 (butlast (joinpath demo_tmpdir ?p)) = (None, demo_fs0)"
    by (simp add: demo_fs0_def demo_world_def demo_tmpdir_def joinpath_def is_absolute_def
        parts_def os_mkdir_def node_at_def os_is_dir_def)
  have k: "walk demo_fs0 [] (joinpath demo_tmpdir ?p) = Inr [''tmp'', ''evil.js'']"
    by (simp add: demo_fs0_def demo_world_def demo_tmpdir_def joinpath_def is_absolute_def
        parts_def node_at_def)
  have n: "node_at demo_fs0 [''tmp'', ''evil.js''] \<noteq> Some Dir"
    by (simp add: demo_fs0_def demo_world_def node_at_def)
  have a: "is_absolute ''/etc/cron.d/job''" by (simp add: is_absolute_def)
  have q: "parts ''/etc/cron.d/job'' = [''etc'', ''cron.d'', ''job'']"
    by (simp add: parts_def)
  from paths_are_not_confined
    [of ?p demo_tmpdir demo_fs0 demo_fs0 "[''tmp'', ''evil.js'']" "''x''" "[]"] m k n
  have "materialize demo_fs0 demo_tmpdir [\<lparr>FileInput.path = ?p, content = ''x''\<rparr>] =
          materialize (demo_fs0([''tmp'', ''evil.js''] \<mapsto> File ''x'')) demo_tmpdir []"
    by blast
  then have b: "materialize demo_fs0 demo_tmpdir [\<lparr>FileInput.path = ?p, content = ''x''\<rparr>] =
          (None, demo_fs0([''tmp'', ''evil.js''] \<mapsto> File ''x''))"
    by simp
  from paths_are_not_confined [of "''/etc/cron.d/job''" demo_tmpdir] a
  have "joinpath demo_tmpdir ''/etc/cron.d/job'' = parts ''/etc/cron.d/job''"
    by blast
  with q have d: "joinpath demo_tmpdir ''/etc/cron.d/job'' = [''etc'', ''cron.d'', ''job'']"
    by simp
  from b d show ?thesis by (rule conjI)
qed

text \<open>
  Claim C1 as it is written fails on a request with the paths \<open>../evil.js\<close> and
  \<open>/etc/cron.d/job\<close>: the request is answered with a response, the engine is run, and
  both files are on the disk outside the workspace after the scan.
\<close>

theorem escaping_paths_are_scanned:
  "map FileInput.path (files escape_request) = [''../evil.js'', ''/etc/cron.d/job''] \<and>
   fst (scan demo_platform demo_world escape_request) =
     Inr \<lparr>findings = [], duration_ms = 42, files_scanned = 2\<rparr> \<and>
   engine_runs (snd (scan demo_platform demo_world escape_request)) =
     [[''semgrep'', ''--config'', ''/app/rules.yml'', ''--json'', ''--no-git-ignore'',
       ''--quiet'', ''/tmp/semgrep-scan-k3x9q2ab'']] \<and>
   disk (snd (scan demo_platform demo_world escape_request)) [''tmp'', ''evil.js''] =
     Some (File ''x'') \<and>
   disk (snd (scan demo_platform demo_world escape_request)) [''etc'', ''cron.d'', ''job''] =
     Some (File ''y'') \<and>
   disk demo_world [''tmp'', ''evil.js''] = None \<and>
   disk demo_world [''etc'', ''cron.d'', ''job''] = None"
  by code_simp

subsection \<open>Paths of findings\<close>

text \<open>
  Claim C5 fails on a file whose path starts with a backslash and a slash. The engine
  reports it under the workspace; after the name of the workspace is cut off, the slashes
  in front are stripped, then the backslashes, and the slash that follows them stays. The
  finding of the response has the absolute path \<open>/tmp/x.js\<close>.
\<close>

theorem mixed_separators_leave_absolute_path:
  "FileInput.path (hd (files backslash_request)) = CHR 0x5C # ''/tmp/x.js'' \<and>
   joinpath demo_tmpdir (FileInput.path (hd (files backslash_request))) =
     [''tmp'', ''semgrep-scan-k3x9q2ab'', [CHR 0x5C], ''tmp'', ''x.js''] \<and>
   fst (scan (demo_platform\<lparr>run_engine := \<lambda>cmd fs. Completed 1 backslash_stdout []\<rparr>)
          demo_world backslash_request) =
     Inr \<lparr>findings =
            [\<lparr>rule_id = ''js-eval-usage'', path = ''/tmp/x.js'', line = 1,
              message = ''Avoid eval()'', severity = ''error'', category = ''security''\<rparr>],
          duration_ms = 42, files_scanned = 1\<rparr> \<and>
   path (normalize_path demo_tmpdir
     \<lparr>rule_id = ''r'', path = demo_tmpdir @ ''/'' @ [CHR 0x5C] @ demo_tmpdir @ ''/x.js'',
      line = 1, message = [], severity = ''info'', category = ''security''\<rparr>) =
     demo_tmpdir @ ''/x.js''"
  by code_simp

text \<open>
  What does hold of the paths of findings. A path that does not start with the name of the
  workspace is kept. For a path under the workspace, the name of the workspace and the
  separator after it are removed when the rest does not start with a separator. When a
  path has no backslash and the name of the workspace starts with a slash, the normalized
  path does not start with the name of the workspace.
\<close>

lemma lstrip_no_backslash: "CHR 0x5C \<notin> set c \<Longrightarrow> lstrip (CHR 0x5C) c = c"
  by (cases c) (auto simp: lstrip_def)

lemma lstrip_slash_not_prefix:
  assumes "is_absolute tmpdir"
  shows "\<not> prefix tmpdir (lstrip (CHR ''/'') r)"
proof -
  from assms obtain d where t: "tmpdir = CHR ''/'' # d"
    by (auto simp: is_absolute_def split: list.splits)
  have "lstrip (CHR ''/'') r = [] \<or> hd (lstrip (CHR ''/'') r) \<noteq> CHR ''/''"
    unfolding lstrip_def using hd_dropWhile [of "\<lambda>x. x = CHR ''/''" r] by blast
  then show ?thesis
    unfolding t by (cases "lstrip (CHR ''/'') r") auto
qed

lemma lstrip_set: "x \<in> set (lstrip c s) \<Longrightarrow> x \<in> set s"
  unfolding lstrip_def by (rule set_dropWhileD)

theorem normalize_path_posix:
  "(\<not> startswith (path f) tmpdir \<longrightarrow> normalize_path tmpdir f = f) \<and>
   (path f = tmpdir @ ''/'' @ rel \<and> (rel = [] \<or> hd rel \<notin> {CHR ''/'', CHR 0x5C}) \<longrightarrow>
      path (normalize_path tmpdir f) = rel) \<and>
   (is_absolute tmpdir \<and> CHR 0x5C \<notin> set (path f) \<longrightarrow>
      \<not> startswith (path (normalize_path tmpdir f)) tmpdir)"
proof -
  have keep: "normalize_path tmpdir f = f" if "\<not> startswith (path f) tmpdir"
    using that by (simp add: normalize_path_def)
  have cut: "path (normalize_path tmpdir f) = rel"
    if p: "path f = tmpdir @ ''/'' @ rel" and r: "rel = [] \<or> hd rel \<notin> {CHR ''/'', CHR 0x5C}"
  proof -
    from r have "dropWhile (\<lambda>x. x = CHR 0x5C) (dropWhile (\<lambda>x. x = CHR ''/'') rel) = rel"
      by (cases rel) auto
    with p show ?thesis
      by (simp add: normalize_path_def startswith_def lstrip_def)
  qed
  have away: "\<not> startswith (path (normalize_path tmpdir f)) tmpdir"
    if a: "is_absolute tmpdir" and b: "CHR 0x5C \<notin> set (path f)"
  proof (cases "startswith (path f) tmpdir")
    case False
    then show ?thesis by (simp add: normalize_path_def)
  next
    case True
    from b have "CHR 0x5C \<notin> set (lstrip (CHR ''/'') (drop (length tmpdir) (path f)))"
      by (meson in_set_dropD lstrip_set)
    then have "lstrip (CHR 0x5C) (lstrip (CHR ''/'') (drop (length tmpdir) (path f))) =
               lstrip (CHR ''/'') (drop (length tmpdir) (path f))"
      by (rule lstrip_no_backslash)
    with lstrip_slash_not_prefix [OF a, of "drop (length tmpdir) (path f)"] True
    show ?thesis
      by (simp add: normalize_path_def startswith_def)
  qed
  from keep cut away show ?thesis by blast
qed

theorem normalize_path_posix_witness:
  "path (normalize_path demo_tmpdir
     \<lparr>rule_id = ''r'', path = demo_tmpdir @ ''/'' @ ''src/app.js'', line = 1, message = [],
      severity = ''info'', category = ''security''\<rparr>) = ''src/app.js'' \<and>
   normalize_path demo_tmpdir eval_finding = eval_finding \<and>
   \<not> startswith (path (normalize_path demo_tmpdir
     \<lparr>rule_id = ''r'', path = demo_tmpdir @ ''//'' @ demo_tmpdir, line = 1, message = [],
      severity = ''info'', category = ''security''\<rparr>)) demo_tmpdir"
proof -
  let ?f = "\<lparr>rule_id = ''r'', path = demo_tmpdir @ ''/'' @ ''src/app.js'', line = 1,
             message = [], severity = ''info'', category = ''security''\<rparr>"
  let ?g = "\<lparr>rule_id = ''r'', path = demo_tmpdir @ ''//'' @ demo_tmpdir, line = 1,
             message = [], severity = ''info'', category = ''security''\<rparr>"
  have p: "path ?f = demo_tmpdir @ ''/'' @ ''src/app.js''"
    "''src/app.js'' = [] \<or> hd ''src/app.js'' \<notin> {CHR ''/'', CHR 0x5C}"
    by simp_all
  have n: "\<not> startswith (path eval_finding) demo_tmpdir"
    by (simp add: startswith_def eval_finding_def demo_tmpdir_def)
  have a: "is_absolute demo_tmpdir" "CHR 0x5C \<notin> set (path ?g)"
    by (simp_all add: is_absolute_def demo_tmpdir_def)
  from normalize_path_posix [of ?f demo_tmpdir "''src/app.js''"] p
  have x: "path (normalize_path demo_tmpdir ?f) = ''src/app.js''" by blast
  from normalize_path_posix [of eval_finding demo_tmpdir] n
  have y: "normalize_path demo_tmpdir eval_finding = eval_finding" by blast
  from normalize_path_posix [of ?g demo_tmpdir] a
  have z: "\<not> startswith (path (normalize_path demo_tmpdir ?g)) demo_tmpdir" by blast
  from x y z show ?thesis by blast
qed

end
